theory Spec2Isabelle
  imports Main "HOL-Library.Sublist"
begin

section \<open>Branch management utilities of the zeroshot CLI (lib/branch-manager.js)\<close>

text \<open>
  The module talks to git only through \<open>execSync\<close>: a command line is handed to the
  shell in the directory \<open>cwd\<close>, and the call either returns what the command printed or
  throws an error carrying a message. Everything else is string processing on that text.

  JavaScript strings are modelled as HOL strings; a \<open>char\<close> stands for a code unit
  below 256. Each function is first defined on a given directory; the default argument
  \<open>cwd = process.cwd()\<close> of the exported functions is \<open>default_cwd\<close> below.
\<close>

subsection \<open>Completions: a value, or a thrown error\<close>

datatype 'a completion = Normal 'a | Throw string

text \<open>
  What \<open>execSync(command, {cwd, ...})\<close> does for the read-only queries: the repository
  at \<open>cwd\<close> is the function from the command line to its outcome.
\<close>

type_synonym shell = "string \<Rightarrow> string completion"

subsection \<open>String primitives of JavaScript used by the module\<close>

text \<open>\<open>String.prototype.trim\<close> removes white space and line terminators at both ends.\<close>

definition is_space :: "char \<Rightarrow> bool" where
  "is_space c \<longleftrightarrow> c \<in> {CHR 0x09, CHR 0x0A, CHR 0x0B, CHR 0x0C, CHR 0x0D, CHR 0x20, CHR 0xA0}"

definition trim :: "string \<Rightarrow> string" where
  "trim s = rev (dropWhile is_space (rev (dropWhile is_space s)))"

text \<open>\<open>String.prototype.includes\<close>: the pattern occurs somewhere as a contiguous run.\<close>

fun js_includes :: "string \<Rightarrow> string \<Rightarrow> bool" where
  "js_includes [] pat = (pat = [])"
| "js_includes (c # cs) pat = (prefix pat (c # cs) \<or> js_includes cs pat)"

text \<open>
  \<open>String.prototype.split\<close> with a one-character separator. The result is never empty:
  \<open>"".split(sep)\<close> is \<open>[""]\<close>.
\<close>

fun js_split :: "char \<Rightarrow> string \<Rightarrow> string list" where
  "js_split sep [] = [[]]"
| "js_split sep (c # cs) =
     (if c = sep then [] # js_split sep cs
      else (case js_split sep cs of
              p # ps \<Rightarrow> (c # p) # ps
            | [] \<Rightarrow> [[c]]))"

text \<open>\<open>Array.prototype.join\<close> with a one-character separator.\<close>

fun js_join :: "char \<Rightarrow> string list \<Rightarrow> string" where
  "js_join sep [] = []"
| "js_join sep [p] = p"
| "js_join sep (p # q # ps) = p @ sep # js_join sep (q # ps)"

text \<open>
  The regular expression \<open>/refs\/remotes\/origin\/(.+)/\<close>: the leftmost position where the
  literal text is followed by at least one character that is not a line terminator; the
  group is greedy and takes every such character up to the next line terminator or the
  end. The result is the group (\<open>match[1]\<close>), or \<open>None\<close> when \<open>match\<close> is \<open>null\<close>.
\<close>

definition line_terminator :: "char \<Rightarrow> bool" where
  "line_terminator c \<longleftrightarrow> c = CHR 0x0A \<or> c = CHR 0x0D"

fun strip_prefix :: "string \<Rightarrow> string \<Rightarrow> string option" where
  "strip_prefix [] s = Some s"
| "strip_prefix (p # ps) [] = None"
| "strip_prefix (p # ps) (c # cs) = (if p = c then strip_prefix ps cs else None)"

definition match_here :: "string \<Rightarrow> string option" where
  "match_here s =
     (case strip_prefix ''refs/remotes/origin/'' s of
        None \<Rightarrow> None
      | Some rest \<Rightarrow>
          (let g = takeWhile (\<lambda>c. \<not> line_terminator c) rest
           in if g = [] then None else Some g))"

fun match_origin :: "string \<Rightarrow> string option" where
  "match_origin [] = None"
| "match_origin (c # cs) =
     (case match_here (c # cs) of
        Some g \<Rightarrow> Some g
      | None \<Rightarrow> match_origin cs)"

subsection \<open>isGitRepo\<close>

definition isGitRepo :: "shell \<Rightarrow> bool completion" where
  "isGitRepo cwd =
     (case cwd ''git rev-parse --git-dir'' of
        Normal _ \<Rightarrow> Normal True
      | Throw _ \<Rightarrow> Normal False)"

subsection \<open>getDefaultBranch\<close>

text \<open>
  The second \<open>try\<close> block and the final \<open>return 'main'\<close>: reached when the first block
  threw or its match was \<open>null\<close>. The test is \<open>branches.includes(...)\<close> on the raw text
  printed by \<open>git branch -a\<close>.
\<close>

definition detectDefaultBranch :: "shell \<Rightarrow> string completion" where
  "detectDefaultBranch cwd =
     (case cwd ''git branch -a'' of
        Normal branches \<Rightarrow>
          (if js_includes branches ''main'' then Normal ''main''
           else if js_includes branches ''master'' then Normal ''master''
           else Normal ''main'')
      | Throw _ \<Rightarrow> Normal ''main'')"

definition getDefaultBranch :: "shell \<Rightarrow> string completion" where
  "getDefaultBranch cwd =
     (case cwd ''git symbolic-ref refs/remotes/origin/HEAD 2>/dev/null'' of
        Normal out \<Rightarrow>
          (case match_origin (trim out) of
             Some branch \<Rightarrow> Normal branch
           | None \<Rightarrow> detectDefaultBranch cwd)
      | Throw _ \<Rightarrow> detectDefaultBranch cwd)"

subsection \<open>getCurrentBranch\<close>

text \<open>The result is \<open>string | null\<close>; \<open>null\<close> is \<open>None\<close>.\<close>

definition getCurrentBranch :: "shell \<Rightarrow> string option completion" where
  "getCurrentBranch cwd =
     (case cwd ''git branch --show-current'' of
        Normal out \<Rightarrow> Normal (Some (trim out))
      | Throw _ \<Rightarrow> Normal None)"

subsection \<open>listLocalBranches\<close>

definition listLocalBranches :: "shell \<Rightarrow> string list completion" where
  \<open>listLocalBranches cwd =
     (case cwd ''git branch --format="%(refname:short)"'' of
        Normal out \<Rightarrow> Normal (filter (\<lambda>b. b \<noteq> []) (map trim (js_split CHR 0x0A out)))
      | Throw _ \<Rightarrow> Normal [])\<close>

subsection \<open>listRemoteBranches\<close>

record remote_ref =
  remote :: string
  branch :: string
  fullName :: string

text \<open>
  The arrow function of the last \<open>map\<close>. \<open>parts[0]\<close> of an empty array would be
  \<open>undefined\<close>; \<open>split\<close> never returns one, and the model gives the empty string there.
\<close>

definition parse_remote :: "string \<Rightarrow> remote_ref" where
  "parse_remote full =
     (case js_split CHR ''/'' full of
        [] \<Rightarrow> \<lparr>remote = [], branch = [], fullName = full\<rparr>
      | p # ps \<Rightarrow> \<lparr>remote = p, branch = js_join CHR ''/'' ps, fullName = full\<rparr>)"

definition listRemoteBranches :: "shell \<Rightarrow> remote_ref list completion" where
  \<open>listRemoteBranches cwd =
     (case cwd ''git branch -r --format="%(refname:short)"'' of
        Normal out \<Rightarrow>
          Normal (map parse_remote
                    (filter (\<lambda>b. b \<noteq> [] \<and> \<not> js_includes b ''HEAD'')
                       (map trim (js_split CHR 0x0A out))))
      | Throw _ \<Rightarrow> Normal [])\<close>

subsection \<open>isBranchMerged\<close>

text \<open>
  \<open>getDefaultBranch\<close> is called inside the \<open>try\<close> block, so an error thrown by it would
  be caught as well. The last step is \<open>Array.prototype.includes\<close>: equality with one of the
  lines, which are not trimmed here.
\<close>

definition merged_query :: "string \<Rightarrow> string" where
  \<open>merged_query defaultBranch =
     ''git branch --merged '' @ defaultBranch @ '' --format="%(refname:short)"''\<close>

definition isBranchMerged :: "string \<Rightarrow> shell \<Rightarrow> bool completion" where
  \<open>isBranchMerged b cwd =
     (case getDefaultBranch cwd of
        Throw _ \<Rightarrow> Normal False
      | Normal defaultBranch \<Rightarrow>
          (case cwd (merged_query defaultBranch) of
             Normal out \<Rightarrow> Normal (b \<in> set (js_split CHR 0x0A out))
           | Throw _ \<Rightarrow> Normal False))\<close>

subsection \<open>deleteLocalBranch and deleteRemoteBranch\<close>

text \<open>
  The two deletions change the repository, so here \<open>execSync\<close> is a transition: from
  the command line and the state before to the outcome and the state after. The command
  line is built as the template literal builds it, the branch name between double quotes.
\<close>

type_synonym 'w execSync = "string \<Rightarrow> 'w \<Rightarrow> string completion \<times> 'w"

record outcome =
  success :: bool
  error :: "string option"

definition deleteLocalBranch ::
  "'w execSync \<Rightarrow> string \<Rightarrow> 'w \<Rightarrow> bool \<Rightarrow> outcome completion \<times> 'w" where
  \<open>deleteLocalBranch execSync b w force =
     (let flag = (if force then ''-D'' else ''-d'')
      in case execSync (''git branch '' @ flag @ '' "'' @ b @ ''"'') w of
           (Normal _, w') \<Rightarrow> (Normal \<lparr>success = True, error = None\<rparr>, w')
         | (Throw message, w') \<Rightarrow> (Normal \<lparr>success = False, error = Some message\<rparr>, w'))\<close>

definition deleteRemoteBranch ::
  "'w execSync \<Rightarrow> string \<Rightarrow> string \<Rightarrow> 'w \<Rightarrow> outcome completion \<times> 'w" where
  \<open>deleteRemoteBranch execSync rem b w =
     (case execSync (''git push '' @ rem @ '' --delete "'' @ b @ ''"'') w of
        (Normal _, w') \<Rightarrow> (Normal \<lparr>success = True, error = None\<rparr>, w')
      | (Throw message, w') \<Rightarrow> (Normal \<lparr>success = False, error = Some message\<rparr>, w'))\<close>

text \<open>
  The read-only view of a state: what each query prints there. The inspection functions
  only run queries, which leave the repository as it is.
\<close>

definition observe :: "'w execSync \<Rightarrow> 'w \<Rightarrow> shell" where
  "observe execSync w cmd = fst (execSync cmd w)"

subsection \<open>The default argument \<open>cwd = process.cwd()\<close>\<close>

text \<open>
  Every exported function declares its directory as \<open>cwd = process.cwd()\<close>. When the
  caller omits the argument, \<open>process.cwd()\<close> is evaluated before the body is entered,
  outside its \<open>try\<close> block, and an error it throws (the directory of the process has
  been removed) propagates to the caller. \<open>process_cwd\<close> is the outcome of
  \<open>process.cwd()\<close>, \<open>arg\<close> the argument (\<open>None\<close> when omitted), \<open>body\<close> the function
  on a given directory as defined above.
\<close>

definition default_cwd :: "'d completion \<Rightarrow> 'd option \<Rightarrow> ('d \<Rightarrow> 'a completion) \<Rightarrow> 'a completion" where
  "default_cwd process_cwd arg body =
     (case arg of
        Some dir \<Rightarrow> body dir
      | None \<Rightarrow>
          (case process_cwd of
             Normal dir \<Rightarrow> body dir
           | Throw e \<Rightarrow> Throw e))"

text \<open>\<open>process.cwd()\<close> in a process whose directory has been removed.\<close>

definition cwd_gone :: "'d completion" where
  "cwd_gone = Throw ''ENOENT: no such file or directory, uv_cwd''"

subsection \<open>getBranchesToClean\<close>

record options =
  cwd :: shell
  protect :: "string list"
  includeRemote :: bool

text \<open>
  The returned object \<open>{local, remote}\<close>; the fields are named after the variables
  they are filled from.
\<close>

record cleanup =
  localToClean :: "string list"
  remoteToClean :: "remote_ref list"

text \<open>
  \<open>Boolean\<close> as the filter predicate on values that are strings or \<open>null\<close>: \<open>null\<close> and
  the empty string are falsy.
\<close>

definition Boolean :: "string option \<Rightarrow> bool" where
  "Boolean v \<longleftrightarrow> v \<noteq> None \<and> v \<noteq> Some []"

text \<open>\<open>new Set([defaultBranch, currentBranch, ...protect].filter(Boolean))\<close>\<close>

definition protectedBranches :: "string \<Rightarrow> string option \<Rightarrow> string list \<Rightarrow> string option set" where
  "protectedBranches defaultBranch currentBranch prot =
     set (filter Boolean ([Some defaultBranch, currentBranch] @ map Some prot))"

text \<open>
  The function has no \<open>try\<close> block of its own: an error thrown by one of the four
  inspection calls would propagate.
\<close>

definition getBranchesToClean :: "options \<Rightarrow> cleanup completion" where
  "getBranchesToClean opts =
     (case getDefaultBranch (cwd opts) of
        Throw e \<Rightarrow> Throw e
      | Normal defaultBranch \<Rightarrow>
     (case getCurrentBranch (cwd opts) of
        Throw e \<Rightarrow> Throw e
      | Normal currentBranch \<Rightarrow>
     (let protected = protectedBranches defaultBranch currentBranch (protect opts)
      in case listLocalBranches (cwd opts) of
        Throw e \<Rightarrow> Throw e
      | Normal allLocal \<Rightarrow>
     (let local = filter (\<lambda>b. Some b \<notin> protected) allLocal
      in if includeRemote opts
         then (case listRemoteBranches (cwd opts) of
                 Throw e \<Rightarrow> Throw e
               | Normal allRemote \<Rightarrow>
                   Normal \<lparr>localToClean = local,
                           remoteToClean = filter (\<lambda>r. Some (branch r) \<notin> protected) allRemote\<rparr>)
         else Normal \<lparr>localToClean = local, remoteToClean = []\<rparr>))))"

subsection \<open>The commands as git and the shell run them\<close>

text \<open>
  \<open>git branch --show-current\<close> prints the name of the current branch and a newline; in
  detached HEAD state it prints nothing and still exits with status 0 (git-branch(1)).
  The argument is the branch HEAD points at, \<open>None\<close> when HEAD is detached.
\<close>

definition git_show_current :: "string option \<Rightarrow> string" where
  "git_show_current h = (case h of None \<Rightarrow> [] | Some b \<Rightarrow> b @ [CHR 0x0A])"

text \<open>
  A repository with HEAD on a branch: the branch checked out, the local branches in the
  order git lists them, and those among them whose tip is an ancestor of the tip of the
  checked-out branch.
\<close>

record repo =
  checked_out :: string
  heads :: "string list"
  merged :: "string list"

text \<open>
  A branch is unmerged when its tip is not an ancestor of the tip of the current branch,
  which is what safe deletion tests. The current branch is never unmerged.
\<close>

definition unmerged :: "repo \<Rightarrow> string \<Rightarrow> bool" where
  "unmerged r b \<longleftrightarrow> b \<in> set (heads r) \<and> b \<noteq> checked_out r \<and> b \<notin> set (merged r)"

text \<open>
  \<open>git branch -d name\<close> and \<open>git branch -D name\<close>: the checked-out branch is never
  deleted, a missing branch is an error, and \<open>-d\<close> refuses a branch that is not merged.
  Every refusal leaves the repository as it was. The texts printed are abbreviated.
\<close>

definition git_branch_delete :: "bool \<Rightarrow> string \<Rightarrow> repo \<Rightarrow> string completion \<times> repo" where
  "git_branch_delete force b r =
     (if b = checked_out r then (Throw ''error: cannot delete the checked out branch'', r)
      else if b \<notin> set (heads r) then (Throw ''error: branch not found'', r)
      else if \<not> force \<and> b \<notin> set (merged r) then (Throw ''error: the branch is not fully merged'', r)
      else (Normal ''Deleted branch'',
            r\<lparr>heads := removeAll b (heads r), merged := removeAll b (merged r)\<rparr>))"

text \<open>
  How \<open>/bin/sh\<close> reads one word made of quoted and unquoted pieces. A double quote opens
  or closes a quoted piece and is removed. Inside double quotes every character stands for
  itself except \<open>$\<close>, the backquote and the backslash; outside, letters, digits and
  \<open>- _ . /\<close> stand for themselves. A word that ends inside a quoted piece is a syntax
  error, and the shell runs nothing. Words with other characters are outside this
  description (\<open>Unmodelled\<close>): the shell would expand such a word and run git on the
  result, and the failure that stands for them below says nothing about it. No
  statement rests on that case.
\<close>

datatype sh_word = Word string | Unterminated | Unmodelled

definition sh_plain :: "char \<Rightarrow> bool" where
  "sh_plain c \<longleftrightarrow>
     c \<in> set ''abcdefghijklmnopqrstuvwxyzABCDEFGHIJKLMNOPQRSTUVWXYZ0123456789-_./''"

definition sh_expands :: "char \<Rightarrow> bool" where
  \<open>sh_expands c \<longleftrightarrow> c = CHR ''$'' \<or> c = CHR 0x60 \<or> c = CHR 0x5C\<close>

fun sh_read :: "bool \<Rightarrow> string \<Rightarrow> sh_word" where
  "sh_read quoted [] = (if quoted then Unterminated else Word [])"
| "sh_read quoted (c # cs) =
     (if c = CHR 0x22 then sh_read (\<not> quoted) cs
      else if (if quoted then sh_expands c else \<not> sh_plain c) then Unmodelled
      else (case sh_read quoted cs of
              Word w \<Rightarrow> Word (c # w)
            | Unterminated \<Rightarrow> Unterminated
            | Unmodelled \<Rightarrow> Unmodelled))"

definition run_branch_delete :: "bool \<Rightarrow> string \<Rightarrow> repo \<Rightarrow> string completion \<times> repo" where
  "run_branch_delete force arg r =
     (case sh_read False arg of
        Word b \<Rightarrow> git_branch_delete force b r
      | Unterminated \<Rightarrow> (Throw ''sh: Syntax error: Unterminated quoted string'', r)
      | Unmodelled \<Rightarrow> (Throw ''unmodelled command'', r))"

text \<open>
  The command lines of \<open>listLocalBranches\<close> and \<open>deleteLocalBranch\<close>, run in a
  repository. The listing prints one branch name per line. Other command lines are
  outside this description.
\<close>

definition git_sh :: "repo execSync" where
  \<open>git_sh cmd r =
     (if cmd = ''git branch --format="%(refname:short)"''
      then (Normal (concat (map (\<lambda>b. b @ [CHR 0x0A]) (heads r))), r)
      else (case strip_prefix ''git branch -d '' cmd of
              Some arg \<Rightarrow> run_branch_delete False arg r
            | None \<Rightarrow>
          (case strip_prefix ''git branch -D '' cmd of
              Some arg \<Rightarrow> run_branch_delete True arg r
            | None \<Rightarrow> (Throw ''unmodelled command'', r))))\<close>

subsection \<open>The default branch as the specification words it\<close>

text \<open>
  Step (a) is the branch origin designates as its HEAD; step (b) looks for the exact names
  \<open>main\<close>, then \<open>master\<close>, among the parsed local and remote branch names; step (c) is
  the literal \<open>main\<close>. The parsed names are those of \<open>listLocalBranches\<close> and
  \<open>listRemoteBranches\<close>.
\<close>

definition known_branches :: "shell \<Rightarrow> string list" where
  "known_branches sh =
     (case listLocalBranches sh of Normal ls \<Rightarrow> ls | Throw _ \<Rightarrow> []) @
     (case listRemoteBranches sh of Normal rs \<Rightarrow> map branch rs | Throw _ \<Rightarrow> [])"

definition defaultBranch_spec :: "shell \<Rightarrow> string" where
  "defaultBranch_spec sh =
     (case (case sh ''git symbolic-ref refs/remotes/origin/HEAD 2>/dev/null'' of
              Normal out \<Rightarrow> match_origin (trim out)
            | Throw _ \<Rightarrow> None) of
        Some b \<Rightarrow> b
      | None \<Rightarrow>
          (if ''main'' \<in> set (known_branches sh) then ''main''
           else if ''master'' \<in> set (known_branches sh) then ''master''
           else ''main''))"

subsection \<open>Repositories used as concrete inputs\<close>

text \<open>A directory that is not a repository: every git command fails.\<close>

definition not_a_repo :: shell where
  "not_a_repo cmd = Throw ''fatal: not a git repository (or any of the parent directories): .git''"

text \<open>
  The repository of the test suite (\<open>main\<close> checked out, three more branches, of which
  \<open>feature-1\<close> is merged), cloned from \<open>origin\<close> and with a second remote.
\<close>

definition test_repo :: shell where
  \<open>test_repo cmd =
     (if cmd = ''git rev-parse --git-dir'' then Normal ''.git\<newline>''
      else if cmd = ''git symbolic-ref refs/remotes/origin/HEAD 2>/dev/null''
        then Normal ''refs/remotes/origin/main\<newline>''
      else if cmd = ''git branch --show-current'' then Normal (git_show_current (Some ''main''))
      else if cmd = ''git branch --format="%(refname:short)"''
        then Normal ''feature-1\<newline>feature-2\<newline>hotfix-1\<newline>main\<newline>''
      else if cmd = ''git branch -r --format="%(refname:short)"''
        then Normal ''origin/HEAD\<newline>origin/feature-1\<newline>origin/main\<newline>origin/topic/x\<newline>upstream/feature-1\<newline>upstream/main\<newline>''
      else if cmd = merged_query ''main'' then Normal ''feature-1\<newline>main\<newline>''
      else Throw ''Command failed'')\<close>

text \<open>No remote, HEAD detached, local branches \<open>feature-1\<close> and \<open>main\<close>.\<close>

definition detached_repo :: shell where
  \<open>detached_repo cmd =
     (if cmd = ''git rev-parse --git-dir'' then Normal ''.git\<newline>''
      else if cmd = ''git branch --show-current'' then Normal (git_show_current None)
      else if cmd = ''git branch -a''
        then Normal ''* (HEAD detached at 1a2b3c4)\<newline>  feature-1\<newline>  main\<newline>''
      else if cmd = ''git branch --format="%(refname:short)"''
        then Normal ''(HEAD detached at 1a2b3c4)\<newline>feature-1\<newline>main\<newline>''
      else if cmd = ''git branch -r --format="%(refname:short)"'' then Normal []
      else Throw ''Command failed'')\<close>

text \<open>
  No remote, local branches \<open>mainline\<close> and \<open>master\<close>, the latter checked out: there is
  no branch named \<open>main\<close>.
\<close>

definition mainline_repo :: shell where
  \<open>mainline_repo cmd =
     (if cmd = ''git rev-parse --git-dir'' then Normal ''.git\<newline>''
      else if cmd = ''git branch --show-current'' then Normal (git_show_current (Some ''master''))
      else if cmd = ''git branch -a'' then Normal ''  mainline\<newline>* master\<newline>''
      else if cmd = ''git branch --format="%(refname:short)"''
        then Normal ''mainline\<newline>master\<newline>''
      else if cmd = ''git branch -r --format="%(refname:short)"'' then Normal []
      else Throw ''Command failed'')\<close>

text \<open>
  A clone whose remote has a branch named \<open>fix-HEAD-bug\<close> beside \<open>main\<close> and the symbolic
  \<open>origin/HEAD\<close>.
\<close>

definition head_named_repo :: shell where
  \<open>head_named_repo cmd =
     (if cmd = ''git branch -r --format="%(refname:short)"''
        then Normal ''origin/HEAD\<newline>origin/fix-HEAD-bug\<newline>origin/main\<newline>''
      else Throw ''Command failed'')\<close>

text \<open>
  \<open>main\<close> checked out, and two branches with commits of their own, one of them named
  \<open>a"b\<close> (a double quote is allowed in a branch name).
\<close>

definition quoted_repo :: repo where
  \<open>quoted_repo =
     \<lparr>checked_out = ''main'', heads = [''a"b'', ''feature-delete'', ''main''], merged = [''main'']\<rparr>\<close>

text \<open>
  A branch whose name begins with a no-break space (U+00A0), which git admits in a
  branch name and \<open>trim\<close> counts as white space.
\<close>

definition nbsp_repo :: shell where
  "nbsp_repo cmd =
     (if cmd = ''git branch --show-current''
      then Normal (git_show_current (Some [CHR 0xA0, CHR ''x'']))
      else Throw ''Command failed'')"

text \<open>A name that neither begins nor ends with a white-space character.\<close>

definition unpadded :: "string \<Rightarrow> bool" where
  "unpadded n \<longleftrightarrow>
     (case n of [] \<Rightarrow> True | c # cs \<Rightarrow> \<not> is_space c \<and> \<not> is_space (last (c # cs)))"

text \<open>
  Names that are not empty and hold no white-space character in the sense of \<open>trim\<close>
  (U+00A0 included). Git admits more names than these.
\<close>

definition spaceless_name :: "string \<Rightarrow> bool" where
  "spaceless_name n \<longleftrightarrow> n \<noteq> [] \<and> list_all (\<lambda>c. \<not> is_space c) n"

text \<open>Names that the shell passes on unchanged between double quotes.\<close>

definition sh_literal :: "string \<Rightarrow> bool" where
  "sh_literal n \<longleftrightarrow> list_all (\<lambda>c. c \<noteq> CHR 0x22 \<and> \<not> sh_expands c) n"

text \<open>Option objects passed to \<open>getBranchesToClean\<close> in those directories.\<close>

definition test_options :: options where
  "test_options = \<lparr>cwd = test_repo, protect = [''hotfix-1''], includeRemote = True\<rparr>"

definition detached_options :: options where
  "detached_options = \<lparr>cwd = detached_repo, protect = [], includeRemote = False\<rparr>"

definition empty_protect_options :: options where
  "empty_protect_options = \<lparr>cwd = not_a_repo, protect = [''''], includeRemote = True\<rparr>"

section \<open>Properties\<close>

subsection \<open>The string primitives\<close>

lemma js_split_nonempty: "js_split sep s \<noteq> []"
  by (induction s) (auto split: list.splits)

lemma js_split_no_sep: "sep \<notin> set p \<Longrightarrow> js_split sep p = [p]"
  by (induction p) auto

lemma js_split_first: "sep \<notin> set p \<Longrightarrow> js_split sep (p @ sep # rest) = p # js_split sep rest"
  by (induction p) auto

lemma js_split_lines:
  "\<forall>n \<in> set names. sep \<notin> set n \<Longrightarrow>
   js_split sep (concat (map (\<lambda>b. b @ [sep]) names)) = names @ [[]]"
proof (induction names)
  case Nil
  show ?case by simp
next
  case (Cons n names)
  then have "js_split sep (n @ sep # concat (map (\<lambda>b. b @ [sep]) names)) = n # names @ [[]]"
    by (simp add: js_split_first)
  then show ?case by simp
qed

lemma js_join_split: "js_join sep (js_split sep s) = s"
proof (induction s)
  case Nil
  show ?case by simp
next
  case (Cons c s)
  obtain p ps where ps: "js_split sep s = p # ps"
    using js_split_nonempty [of sep s] by (cases "js_split sep s") auto
  show ?case
  proof (cases "c = sep")
    case True
    with Cons ps show ?thesis by simp
  next
    case False
    with Cons ps show ?thesis by (cases ps) auto
  qed
qed

lemma parse_remote_first_separator:
  "CHR ''/'' \<notin> set r \<Longrightarrow>
   parse_remote (r @ CHR ''/'' # rest) = \<lparr>remote = r, branch = rest, fullName = r @ CHR ''/'' # rest\<rparr>"
  by (simp add: parse_remote_def js_split_first js_join_split)

lemma match_here_nonempty: "match_here s = Some g \<Longrightarrow> g \<noteq> []"
  by (auto simp: match_here_def Let_def split: option.splits if_splits)

lemma match_origin_nonempty: "match_origin s = Some g \<Longrightarrow> g \<noteq> []"
  by (induction s) (auto split: option.splits dest: match_here_nonempty)

lemma detectDefaultBranch_value:
  "detectDefaultBranch sh = Normal ''main'' \<or> detectDefaultBranch sh = Normal ''master''"
  by (simp add: detectDefaultBranch_def split: completion.splits)

lemma getDefaultBranch_nonempty: "\<exists>d. getDefaultBranch sh = Normal d \<and> d \<noteq> []"
  using detectDefaultBranch_value [of sh]
  by (auto simp: getDefaultBranch_def split: completion.splits option.splits dest: match_origin_nonempty)

lemma trim_line:
  "b = [] \<or> (\<not> is_space (hd b) \<and> \<not> is_space (last b)) \<Longrightarrow> trim (b @ [CHR 0x0A]) = b"
proof (cases b)
  case Nil
  then show ?thesis by (simp add: trim_def is_space_def)
next
  case (Cons c cs)
  assume "b = [] \<or> (\<not> is_space (hd b) \<and> \<not> is_space (last b))"
  with Cons have h: "\<not> is_space c" and l: "\<not> is_space (last b)" by auto
  have nl: "is_space (CHR 0x0A)" by (simp add: is_space_def)
  have "dropWhile is_space (b @ [CHR 0x0A]) = b @ [CHR 0x0A]"
    using Cons h by simp
  moreover have "dropWhile is_space (rev (b @ [CHR 0x0A])) = rev b"
  proof -
    from Cons obtain ys y where b_eq: "b = ys @ [y]"
      by (metis rev_exhaust list.distinct(1))
    with l have "\<not> is_space y" by simp
    then show ?thesis using nl by (simp add: b_eq)
  qed
  ultimately show ?thesis by (simp add: trim_def)
qed

lemma trim_id: "n = [] \<or> (\<not> is_space (hd n) \<and> \<not> is_space (last n)) \<Longrightarrow> trim n = n"
proof (cases n)
  case Nil
  then show ?thesis by (simp add: trim_def)
next
  case (Cons c cs)
  assume "n = [] \<or> (\<not> is_space (hd n) \<and> \<not> is_space (last n))"
  with Cons have h: "\<not> is_space c" and l: "\<not> is_space (last n)" by auto
  from Cons obtain ys y where n_eq: "n = ys @ [y]"
    by (metis rev_exhaust list.distinct(1))
  with l have y: "\<not> is_space y" by simp
  have "dropWhile is_space n = n" using Cons h by simp
  moreover have "dropWhile is_space (rev n) = rev n" using y by (simp add: n_eq)
  ultimately show ?thesis by (simp add: trim_def)
qed

lemma trim_newline: "trim (b @ [CHR 0x0A]) = trim b"
proof (cases "\<forall>c \<in> set b. is_space c")
  case True
  have nl: "is_space (CHR 0x0A)" by (simp add: is_space_def)
  from True have "dropWhile is_space (b @ [CHR 0x0A]) = dropWhile is_space [CHR 0x0A]"
    by (simp add: dropWhile_append2)
  then have a: "dropWhile is_space (b @ [CHR 0x0A]) = []"
    using nl by simp
  from True have b: "dropWhile is_space b = []"
    by (simp add: dropWhile_eq_Nil_conv)
  show ?thesis unfolding trim_def a b by simp
next
  case False
  then obtain c where c: "c \<in> set b" "\<not> is_space c" by blast
  then have "dropWhile is_space (b @ [CHR 0x0A]) = dropWhile is_space b @ [CHR 0x0A]"
    by (rule dropWhile_append1)
  moreover have "is_space (CHR 0x0A)" by (simp add: is_space_def)
  ultimately show ?thesis by (simp add: trim_def)
qed

lemma trim_shorter:
  assumes "b \<noteq> []" and "is_space (hd b) \<or> is_space (last b)"
  shows "length (trim b) < length b"
proof -
  have le1: "length (trim b) \<le> length (dropWhile is_space b)"
    unfolding trim_def using length_dropWhile_le [of is_space "rev (dropWhile is_space b)"]
    by simp
  show ?thesis
  proof (cases "is_space (hd b)")
    case True
    with assms(1) have "dropWhile is_space b = dropWhile is_space (tl b)"
      by (cases b) simp_all
    then have "length (dropWhile is_space b) \<le> length (tl b)"
      using length_dropWhile_le [of is_space "tl b"] by simp
    with assms(1) le1 show ?thesis by (cases b) simp_all
  next
    case False
    with assms have l: "is_space (last b)" by simp
    from assms(1) False have d: "dropWhile is_space b = b" by (cases b) simp_all
    from assms(1) obtain ys y where b_eq: "b = ys @ [y]"
      by (metis rev_exhaust)
    with l have "is_space y" by simp
    then have "dropWhile is_space (rev b) = dropWhile is_space (rev ys)"
      by (simp add: b_eq)
    then have "length (dropWhile is_space (rev b)) \<le> length ys"
      using length_dropWhile_le [of is_space "rev ys"] by simp
    then show ?thesis
      by (simp add: trim_def d) (simp add: b_eq)
  qed
qed

lemma trim_unpadded: "trim n = n \<longleftrightarrow> unpadded n"
proof
  assume t: "trim n = n"
  show "unpadded n"
  proof (rule ccontr)
    assume "\<not> unpadded n"
    then have "n \<noteq> []" and "is_space (hd n) \<or> is_space (last n)"
      by (auto simp: unpadded_def split: list.splits)
    then have "length (trim n) < length n" by (rule trim_shorter)
    with t show False by simp
  qed
next
  assume "unpadded n"
  then have "n = [] \<or> (\<not> is_space (hd n) \<and> \<not> is_space (last n))"
    by (auto simp: unpadded_def split: list.splits)
  then show "trim n = n" by (rule trim_id)
qed

subsection \<open>getDefaultBranch\<close>

lemma getDefaultBranch_origin_head:
  "sh ''git symbolic-ref refs/remotes/origin/HEAD 2>/dev/null'' = Normal out \<Longrightarrow>
   match_origin (trim out) = Some b \<Longrightarrow> getDefaultBranch sh = Normal b"
  by (simp add: getDefaultBranch_def)

lemma getDefaultBranch_fallback:
  "sh ''git symbolic-ref refs/remotes/origin/HEAD 2>/dev/null'' = Throw e \<Longrightarrow>
   sh ''git branch -a'' = Throw e' \<Longrightarrow> getDefaultBranch sh = Normal ''main''"
  by (simp add: getDefaultBranch_def detectDefaultBranch_def)

text \<open>
  C1. The claim: when origin's HEAD cannot be resolved, the default branch is a branch whose
  exact name is \<open>main\<close>, else one whose exact name is \<open>master\<close>, else the literal
  \<open>main\<close>. The code tests the raw listing for the substring instead: in a
  repository whose branches are \<open>mainline\<close> and \<open>master\<close> it answers \<open>main\<close>, a branch
  that does not exist, where the exact-name rule answers \<open>master\<close>.
\<close>

theorem getDefaultBranch_substring_match:
  "getDefaultBranch mainline_repo = Normal ''main''
   \<and> known_branches mainline_repo = [''mainline'', ''master'']
   \<and> defaultBranch_spec mainline_repo = ''master''"
  by code_simp

subsection \<open>getCurrentBranch\<close>

lemma getCurrentBranch_trimmed:
  "sh ''git branch --show-current'' = Normal (git_show_current (Some b)) \<Longrightarrow>
   getCurrentBranch sh = Normal (Some (trim b))"
  by (simp add: getCurrentBranch_def git_show_current_def trim_newline)

text \<open>
  C2, as stated, fails in two places. With HEAD detached the query succeeds and prints
  nothing, and the function returns the empty string, not \<open>null\<close>. On the branch whose
  name is a no-break space followed by \<open>x\<close> the function returns \<open>x\<close>, not the name.
\<close>

theorem getCurrentBranch_detached_counterexample:
  "detached_repo ''git branch --show-current'' = Normal (git_show_current None)
   \<and> getCurrentBranch detached_repo = Normal (Some [])
   \<and> getCurrentBranch detached_repo \<noteq> Normal None
   \<and> nbsp_repo ''git branch --show-current'' = Normal (git_show_current (Some [CHR 0xA0, CHR ''x'']))
   \<and> getCurrentBranch nbsp_repo = Normal (Some ''x'')
   \<and> getCurrentBranch nbsp_repo \<noteq> Normal (Some [CHR 0xA0, CHR ''x''])"
  by (simp add: detached_repo_def nbsp_repo_def getCurrentBranch_def git_show_current_def
      trim_def is_space_def)

text \<open>
  C2, amended: \<open>getCurrentBranch\<close> returns \<open>null\<close> exactly when the query fails; on a
  branch whose name neither begins nor ends with a white-space character (U+00A0
  included) it returns the name of that branch; with HEAD detached it returns the empty
  string.
\<close>

theorem getCurrentBranch_by_head:
  "(getCurrentBranch sh = Normal None \<longleftrightarrow> (\<exists>e. sh ''git branch --show-current'' = Throw e))
   \<and> (sh ''git branch --show-current'' = Normal (git_show_current (Some b)) \<and> unpadded b
        \<longrightarrow> getCurrentBranch sh = Normal (Some b))
   \<and> (sh ''git branch --show-current'' = Normal (git_show_current None)
        \<longrightarrow> getCurrentBranch sh = Normal (Some []))"
proof -
  have 1: "getCurrentBranch sh = Normal None \<longleftrightarrow> (\<exists>e. sh ''git branch --show-current'' = Throw e)"
    by (simp add: getCurrentBranch_def split: completion.splits)
  have 2: "sh ''git branch --show-current'' = Normal (git_show_current (Some b)) \<and> unpadded b
        \<longrightarrow> getCurrentBranch sh = Normal (Some b)"
  proof
    assume a: "sh ''git branch --show-current'' = Normal (git_show_current (Some b)) \<and> unpadded b"
    then have "trim b = b" by (simp add: trim_unpadded)
    with a show "getCurrentBranch sh = Normal (Some b)"
      using getCurrentBranch_trimmed [of sh b] by simp
  qed
  have 3: "sh ''git branch --show-current'' = Normal (git_show_current None)
        \<longrightarrow> getCurrentBranch sh = Normal (Some [])"
    by (simp add: getCurrentBranch_def git_show_current_def trim_def)
  from 1 2 3 show ?thesis by (intro conjI)
qed

theorem getCurrentBranch_by_head_witness:
  "(\<exists>e. not_a_repo ''git branch --show-current'' = Throw e)
   \<and> getCurrentBranch not_a_repo = Normal None
   \<and> test_repo ''git branch --show-current'' = Normal (git_show_current (Some ''main''))
   \<and> unpadded ''main''
   \<and> getCurrentBranch test_repo = Normal (Some ''main'')
   \<and> detached_repo ''git branch --show-current'' = Normal (git_show_current None)
   \<and> getCurrentBranch detached_repo = Normal (Some [])"
proof -
  have 1: "\<exists>e. not_a_repo ''git branch --show-current'' = Throw e"
    by (simp add: not_a_repo_def)
  have 2: "test_repo ''git branch --show-current'' = Normal (git_show_current (Some ''main''))"
    by (simp add: test_repo_def)
  have u: "unpadded ''main''"
    by (simp add: unpadded_def is_space_def)
  have 3: "detached_repo ''git branch --show-current'' = Normal (git_show_current None)"
    by (simp add: detached_repo_def)
  have a: "getCurrentBranch not_a_repo = Normal None"
    using 1 getCurrentBranch_by_head [of not_a_repo "''main''"] by blast
  have b: "getCurrentBranch test_repo = Normal (Some ''main'')"
    using 2 u getCurrentBranch_by_head [of test_repo "''main''"] by blast
  have c: "getCurrentBranch detached_repo = Normal (Some [])"
    using 3 getCurrentBranch_by_head [of detached_repo "''main''"] by blast
  from 1 a 2 u b 3 c show ?thesis by (intro conjI)
qed

subsection \<open>The inspection functions return\<close>

lemma isGitRepo_total: "\<exists>v. isGitRepo sh = Normal v"
  by (auto simp: isGitRepo_def split: completion.splits)

lemma getCurrentBranch_total: "\<exists>v. getCurrentBranch sh = Normal v"
  by (simp add: getCurrentBranch_def split: completion.splits)

lemma listLocalBranches_total: "\<exists>v. listLocalBranches sh = Normal v"
  by (simp add: listLocalBranches_def split: completion.splits)

lemma listRemoteBranches_total: "\<exists>v. listRemoteBranches sh = Normal v"
  by (simp add: listRemoteBranches_def split: completion.splits)

lemma isBranchMerged_total: "\<exists>v. isBranchMerged b sh = Normal v"
  by (auto simp: isBranchMerged_def split: completion.splits)

lemma protectedBranches_set:
  "protectedBranches d c p = ({Some d, c} \<union> Some ` set p) - {None, Some []}"
  by (auto simp: protectedBranches_def Boolean_def)

lemma getBranchesToClean_unfold:
  assumes "getDefaultBranch (cwd opts) = Normal d"
    and "getCurrentBranch (cwd opts) = Normal c"
    and "listLocalBranches (cwd opts) = Normal ls"
    and "listRemoteBranches (cwd opts) = Normal rs"
  shows "getBranchesToClean opts =
         Normal \<lparr>localToClean = filter (\<lambda>b. Some b \<notin> protectedBranches d c (protect opts)) ls,
                 remoteToClean =
                   (if includeRemote opts
                    then filter (\<lambda>r. Some (branch r) \<notin> protectedBranches d c (protect opts)) rs
                    else [])\<rparr>"
  using assms by (simp add: getBranchesToClean_def Let_def)

lemma getBranchesToClean_total: "\<exists>plan. getBranchesToClean opts = Normal plan"
proof -
  obtain d where d: "getDefaultBranch (cwd opts) = Normal d"
    using getDefaultBranch_nonempty by blast
  obtain c where c: "getCurrentBranch (cwd opts) = Normal c"
    using getCurrentBranch_total by blast
  obtain ls where ls: "listLocalBranches (cwd opts) = Normal ls"
    using listLocalBranches_total by blast
  obtain rs where rs: "listRemoteBranches (cwd opts) = Normal rs"
    using listRemoteBranches_total by blast
  show ?thesis using getBranchesToClean_unfold [OF d c ls rs] by simp
qed

lemma listLocalBranches_nonempty_names:
  "listLocalBranches sh = Normal ls \<Longrightarrow> [] \<notin> set ls"
  by (auto simp: listLocalBranches_def split: completion.splits)

subsection \<open>The functions on the concrete repositories\<close>

lemma test_repo_default: "getDefaultBranch test_repo = Normal ''main''"
  by code_simp

lemma test_repo_current: "getCurrentBranch test_repo = Normal (Some ''main'')"
  by code_simp

lemma test_repo_local:
  "listLocalBranches test_repo = Normal [''feature-1'', ''feature-2'', ''hotfix-1'', ''main'']"
  by code_simp

lemma test_repo_remote:
  "listRemoteBranches test_repo = Normal
     [\<lparr>remote = ''origin'', branch = ''feature-1'', fullName = ''origin/feature-1''\<rparr>,
      \<lparr>remote = ''origin'', branch = ''main'', fullName = ''origin/main''\<rparr>,
      \<lparr>remote = ''origin'', branch = ''topic/x'', fullName = ''origin/topic/x''\<rparr>,
      \<lparr>remote = ''upstream'', branch = ''feature-1'', fullName = ''upstream/feature-1''\<rparr>,
      \<lparr>remote = ''upstream'', branch = ''main'', fullName = ''upstream/main''\<rparr>]"
  by code_simp

lemma test_repo_plan:
  "getBranchesToClean test_options =
   Normal \<lparr>localToClean = [''feature-1'', ''feature-2''],
           remoteToClean =
             [\<lparr>remote = ''origin'', branch = ''feature-1'', fullName = ''origin/feature-1''\<rparr>,
              \<lparr>remote = ''origin'', branch = ''topic/x'', fullName = ''origin/topic/x''\<rparr>,
              \<lparr>remote = ''upstream'', branch = ''feature-1'', fullName = ''upstream/feature-1''\<rparr>]\<rparr>"
proof -
  have "cwd test_options = test_repo" "protect test_options = [''hotfix-1'']"
    "includeRemote test_options"
    by (simp_all add: test_options_def)
  then show ?thesis
    using getBranchesToClean_unfold [of test_options, OF _ _ _ _]
    by (simp add: test_repo_default test_repo_current test_repo_local test_repo_remote
        protectedBranches_set)
qed

lemma detached_repo_default: "getDefaultBranch detached_repo = Normal ''main''"
  by code_simp

lemma detached_repo_current: "getCurrentBranch detached_repo = Normal (Some [])"
  by code_simp

lemma not_a_repo_default: "getDefaultBranch not_a_repo = Normal ''main''"
  by code_simp

lemma not_a_repo_current: "getCurrentBranch not_a_repo = Normal None"
  by code_simp

subsection \<open>getBranchesToClean: the protected set\<close>

text \<open>
  C3, as stated, fails: \<open>filter(Boolean)\<close> discards the empty string as well as
  \<open>null\<close>. With HEAD detached the current branch is the empty string, which is not
  \<open>null\<close> and is not in the protected set.
\<close>

theorem getBranchesToClean_detached_counterexample:
  "getDefaultBranch (cwd detached_options) = Normal ''main''
   \<and> getCurrentBranch (cwd detached_options) = Normal (Some [])
   \<and> Some [] \<noteq> (None :: string option)
   \<and> Some [] \<notin> protectedBranches ''main'' (Some []) (protect detached_options)
   \<and> protectedBranches ''main'' (Some []) (protect detached_options) \<noteq> {Some ''main'', Some []}"
proof -
  have m: "Some [] \<notin> protectedBranches ''main'' (Some []) (protect detached_options)"
    by (simp add: protectedBranches_set)
  then have "protectedBranches ''main'' (Some []) (protect detached_options) \<noteq> {Some ''main'', Some []}"
    by blast
  with m show ?thesis
    by (simp add: detached_options_def detached_repo_default detached_repo_current)
qed

text \<open>
  C3, amended: the protected set is \<open>{defaultBranch, currentBranch} \<union> extraProtected\<close>
  with \<open>null\<close> and empty-string entries discarded; no local candidate is protected; the
  default branch is protected; and the current branch is protected whenever it is neither
  \<open>null\<close> nor the empty string.
\<close>

theorem getBranchesToClean_protected_set:
  assumes d: "getDefaultBranch (cwd opts) = Normal d"
    and c: "getCurrentBranch (cwd opts) = Normal c"
    and plan: "getBranchesToClean opts = Normal plan"
  shows "protectedBranches d c (protect opts)
           = ({Some d, c} \<union> Some ` set (protect opts)) - {None, Some []}
         \<and> Some ` set (localToClean plan) \<inter> protectedBranches d c (protect opts) = {}
         \<and> Some d \<in> protectedBranches d c (protect opts)
         \<and> (c \<noteq> None \<and> c \<noteq> Some [] \<longrightarrow> c \<in> protectedBranches d c (protect opts))"
proof -
  obtain ls where ls: "listLocalBranches (cwd opts) = Normal ls"
    using listLocalBranches_total by blast
  obtain rs where rs: "listRemoteBranches (cwd opts) = Normal rs"
    using listRemoteBranches_total by blast
  have "Normal plan =
        Normal \<lparr>localToClean = filter (\<lambda>b. Some b \<notin> protectedBranches d c (protect opts)) ls,
                remoteToClean =
                  (if includeRemote opts
                   then filter (\<lambda>r. Some (branch r) \<notin> protectedBranches d c (protect opts)) rs
                   else [])\<rparr>"
    using getBranchesToClean_unfold [OF d c ls rs] plan by simp
  then have loc: "localToClean plan = filter (\<lambda>b. Some b \<notin> protectedBranches d c (protect opts)) ls"
    by simp
  have dne: "d \<noteq> []"
    using getDefaultBranch_nonempty [of "cwd opts"] d by auto
  have 1: "protectedBranches d c (protect opts)
           = ({Some d, c} \<union> Some ` set (protect opts)) - {None, Some []}"
    by (rule protectedBranches_set)
  have 2: "Some ` set (localToClean plan) \<inter> protectedBranches d c (protect opts) = {}"
    unfolding loc by auto
  have 3: "Some d \<in> protectedBranches d c (protect opts)"
    using dne by (simp add: protectedBranches_set)
  have 4: "c \<noteq> None \<and> c \<noteq> Some [] \<longrightarrow> c \<in> protectedBranches d c (protect opts)"
    by (simp add: protectedBranches_set)
  from 1 2 3 4 show ?thesis by (intro conjI)
qed

theorem getBranchesToClean_protected_set_witness:
  "getDefaultBranch (cwd test_options) = Normal ''main''
   \<and> getCurrentBranch (cwd test_options) = Normal (Some ''main'')
   \<and> localToClean \<lparr>localToClean = [''feature-1'', ''feature-2''], remoteToClean = []\<rparr> = [''feature-1'', ''feature-2'']
   \<and> protectedBranches ''main'' (Some ''main'') (protect test_options) = {Some ''main'', Some ''hotfix-1''}
   \<and> Some ` set [''feature-1'', ''feature-2''] \<inter> protectedBranches ''main'' (Some ''main'') (protect test_options) = {}
   \<and> Some ''main'' \<in> protectedBranches ''main'' (Some ''main'') (protect test_options)"
proof -
  have d: "getDefaultBranch (cwd test_options) = Normal ''main''"
    by (simp add: test_options_def test_repo_default)
  have c: "getCurrentBranch (cwd test_options) = Normal (Some ''main'')"
    by (simp add: test_options_def test_repo_current)
  note plan = test_repo_plan
  have "{Some ''main'', Some ''main''} \<union> Some ` set (protect test_options) - {None, Some []}
        = {Some ''main'', Some ''hotfix-1''}"
    by (auto simp: test_options_def)
  then show ?thesis
    using d c getBranchesToClean_protected_set [OF d c plan] by simp
qed

subsection \<open>getBranchesToClean: the candidates\<close>

lemma getBranchesToClean_fields:
  assumes d: "getDefaultBranch (cwd opts) = Normal d"
    and c: "getCurrentBranch (cwd opts) = Normal c"
    and ls: "listLocalBranches (cwd opts) = Normal ls"
    and rs: "listRemoteBranches (cwd opts) = Normal rs"
    and plan: "getBranchesToClean opts = Normal plan"
  shows "localToClean plan = filter (\<lambda>b. Some b \<notin> protectedBranches d c (protect opts)) ls"
    and "remoteToClean plan =
           (if includeRemote opts
            then filter (\<lambda>r. Some (branch r) \<notin> protectedBranches d c (protect opts)) rs
            else [])"
proof -
  have "Normal plan =
        Normal \<lparr>localToClean = filter (\<lambda>b. Some b \<notin> protectedBranches d c (protect opts)) ls,
                remoteToClean =
                  (if includeRemote opts
                   then filter (\<lambda>r. Some (branch r) \<notin> protectedBranches d c (protect opts)) rs
                   else [])\<rparr>"
    using getBranchesToClean_unfold [OF d c ls rs] plan by simp
  then have p: "plan =
        \<lparr>localToClean = filter (\<lambda>b. Some b \<notin> protectedBranches d c (protect opts)) ls,
                remoteToClean =
                  (if includeRemote opts
                   then filter (\<lambda>r. Some (branch r) \<notin> protectedBranches d c (protect opts)) rs
                   else [])\<rparr>"
    by simp
  show "localToClean plan = filter (\<lambda>b. Some b \<notin> protectedBranches d c (protect opts)) ls"
    by (subst p) simp
  show "remoteToClean plan =
           (if includeRemote opts
            then filter (\<lambda>r. Some (branch r) \<notin> protectedBranches d c (protect opts)) rs
            else [])"
    by (subst p) simp
qed

text \<open>
  C9. The local candidates are the local branches with the protected names removed, in
  the order of \<open>listLocalBranches\<close>: a subsequence of that list, holding exactly its
  unprotected names, and without repetition when the list has none.
\<close>

theorem getBranchesToClean_local_subsequence:
  assumes d: "getDefaultBranch (cwd opts) = Normal d"
    and c: "getCurrentBranch (cwd opts) = Normal c"
    and ls: "listLocalBranches (cwd opts) = Normal ls"
    and plan: "getBranchesToClean opts = Normal plan"
  shows "localToClean plan = filter (\<lambda>b. Some b \<notin> protectedBranches d c (protect opts)) ls
         \<and> subseq (localToClean plan) ls
         \<and> set (localToClean plan) = {b \<in> set ls. Some b \<notin> protectedBranches d c (protect opts)}
         \<and> (distinct ls \<longrightarrow> distinct (localToClean plan))"
proof -
  obtain rs where rs: "listRemoteBranches (cwd opts) = Normal rs"
    using listRemoteBranches_total by blast
  note loc = getBranchesToClean_fields(1) [OF d c ls rs plan]
  have 1: "subseq (localToClean plan) ls"
    unfolding loc by simp
  have 2: "set (localToClean plan) = {b \<in> set ls. Some b \<notin> protectedBranches d c (protect opts)}"
    unfolding loc by simp
  have 3: "distinct ls \<longrightarrow> distinct (localToClean plan)"
    unfolding loc by simp
  from loc 1 2 3 show ?thesis by (intro conjI)
qed

theorem getBranchesToClean_local_subsequence_witness:
  "getDefaultBranch (cwd test_options) = Normal ''main''
   \<and> getCurrentBranch (cwd test_options) = Normal (Some ''main'')
   \<and> listLocalBranches (cwd test_options) = Normal [''feature-1'', ''feature-2'', ''hotfix-1'', ''main'']
   \<and> getBranchesToClean test_options = Normal \<lparr>localToClean = [''feature-1'', ''feature-2''],
           remoteToClean =
             [\<lparr>remote = ''origin'', branch = ''feature-1'', fullName = ''origin/feature-1''\<rparr>,
              \<lparr>remote = ''origin'', branch = ''topic/x'', fullName = ''origin/topic/x''\<rparr>,
              \<lparr>remote = ''upstream'', branch = ''feature-1'', fullName = ''upstream/feature-1''\<rparr>]\<rparr>
   \<and> subseq [''feature-1'', ''feature-2''] [''feature-1'', ''feature-2'', ''hotfix-1'', ''main'']
   \<and> distinct [''feature-1'', ''feature-2'']"
proof -
  have d: "getDefaultBranch (cwd test_options) = Normal ''main''"
    by (simp add: test_options_def test_repo_default)
  have c: "getCurrentBranch (cwd test_options) = Normal (Some ''main'')"
    by (simp add: test_options_def test_repo_current)
  have ls: "listLocalBranches (cwd test_options) = Normal [''feature-1'', ''feature-2'', ''hotfix-1'', ''main'']"
    by (simp add: test_options_def test_repo_local)
  have "subseq [''feature-1'', ''feature-2''] [''feature-1'', ''feature-2'', ''hotfix-1'', ''main'']"
    using getBranchesToClean_local_subsequence [OF d c ls test_repo_plan] by simp
  moreover have "distinct [''feature-1'', ''feature-2'']"
    using getBranchesToClean_local_subsequence [OF d c ls test_repo_plan] by simp
  ultimately show ?thesis
    using d c ls test_repo_plan by (intro conjI)
qed

text \<open>
  C6. With \<open>includeRemote\<close> set, the remote candidates are exactly the remote branches
  whose branch name (the part after the remote) is not in the protected set; two refs
  with the same branch name on different remotes are both candidates or both excluded.
\<close>

theorem getBranchesToClean_remote_by_name:
  assumes inc: "includeRemote opts"
    and d: "getDefaultBranch (cwd opts) = Normal d"
    and c: "getCurrentBranch (cwd opts) = Normal c"
    and rs: "listRemoteBranches (cwd opts) = Normal rs"
    and plan: "getBranchesToClean opts = Normal plan"
  shows "remoteToClean plan = filter (\<lambda>r. Some (branch r) \<notin> protectedBranches d c (protect opts)) rs
         \<and> (\<forall>r \<in> set rs. r \<in> set (remoteToClean plan)
                \<longleftrightarrow> Some (branch r) \<notin> protectedBranches d c (protect opts))
         \<and> (\<forall>r \<in> set rs. \<forall>r' \<in> set rs. branch r = branch r'
                \<longrightarrow> (r \<in> set (remoteToClean plan) \<longleftrightarrow> r' \<in> set (remoteToClean plan)))"
proof -
  obtain ls where ls: "listLocalBranches (cwd opts) = Normal ls"
    using listLocalBranches_total by blast
  have rem: "remoteToClean plan
             = filter (\<lambda>r. Some (branch r) \<notin> protectedBranches d c (protect opts)) rs"
    using getBranchesToClean_fields(2) [OF d c ls rs plan] inc by simp
  have 1: "\<forall>r \<in> set rs. r \<in> set (remoteToClean plan)
                \<longleftrightarrow> Some (branch r) \<notin> protectedBranches d c (protect opts)"
    unfolding rem by simp
  have 2: "\<forall>r \<in> set rs. \<forall>r' \<in> set rs. branch r = branch r'
                \<longrightarrow> (r \<in> set (remoteToClean plan) \<longleftrightarrow> r' \<in> set (remoteToClean plan))"
    unfolding rem by simp
  from rem 1 2 show ?thesis by (intro conjI)
qed

theorem getBranchesToClean_remote_by_name_witness:
  "includeRemote test_options
   \<and> getDefaultBranch (cwd test_options) = Normal ''main''
   \<and> getCurrentBranch (cwd test_options) = Normal (Some ''main'')
   \<and> listRemoteBranches (cwd test_options) = Normal
     [\<lparr>remote = ''origin'', branch = ''feature-1'', fullName = ''origin/feature-1''\<rparr>,
      \<lparr>remote = ''origin'', branch = ''main'', fullName = ''origin/main''\<rparr>,
      \<lparr>remote = ''origin'', branch = ''topic/x'', fullName = ''origin/topic/x''\<rparr>,
      \<lparr>remote = ''upstream'', branch = ''feature-1'', fullName = ''upstream/feature-1''\<rparr>,
      \<lparr>remote = ''upstream'', branch = ''main'', fullName = ''upstream/main''\<rparr>]
   \<and> filter (\<lambda>r. Some (branch r) \<notin> protectedBranches ''main'' (Some ''main'') (protect test_options))
     [\<lparr>remote = ''origin'', branch = ''feature-1'', fullName = ''origin/feature-1''\<rparr>,
      \<lparr>remote = ''origin'', branch = ''main'', fullName = ''origin/main''\<rparr>,
      \<lparr>remote = ''origin'', branch = ''topic/x'', fullName = ''origin/topic/x''\<rparr>,
      \<lparr>remote = ''upstream'', branch = ''feature-1'', fullName = ''upstream/feature-1''\<rparr>,
      \<lparr>remote = ''upstream'', branch = ''main'', fullName = ''upstream/main''\<rparr>]
     = [\<lparr>remote = ''origin'', branch = ''feature-1'', fullName = ''origin/feature-1''\<rparr>,
        \<lparr>remote = ''origin'', branch = ''topic/x'', fullName = ''origin/topic/x''\<rparr>,
        \<lparr>remote = ''upstream'', branch = ''feature-1'', fullName = ''upstream/feature-1''\<rparr>]"
proof -
  have inc: "includeRemote test_options"
    by (simp add: test_options_def)
  have d: "getDefaultBranch (cwd test_options) = Normal ''main''"
    by (simp add: test_options_def test_repo_default)
  have c: "getCurrentBranch (cwd test_options) = Normal (Some ''main'')"
    by (simp add: test_options_def test_repo_current)
  have rs: "listRemoteBranches (cwd test_options) = Normal
     [\<lparr>remote = ''origin'', branch = ''feature-1'', fullName = ''origin/feature-1''\<rparr>,
      \<lparr>remote = ''origin'', branch = ''main'', fullName = ''origin/main''\<rparr>,
      \<lparr>remote = ''origin'', branch = ''topic/x'', fullName = ''origin/topic/x''\<rparr>,
      \<lparr>remote = ''upstream'', branch = ''feature-1'', fullName = ''upstream/feature-1''\<rparr>,
      \<lparr>remote = ''upstream'', branch = ''main'', fullName = ''upstream/main''\<rparr>]"
    by (simp add: test_options_def test_repo_remote)
  have "remoteToClean \<lparr>localToClean = [''feature-1'', ''feature-2''],
           remoteToClean =
             [\<lparr>remote = ''origin'', branch = ''feature-1'', fullName = ''origin/feature-1''\<rparr>,
              \<lparr>remote = ''origin'', branch = ''topic/x'', fullName = ''origin/topic/x''\<rparr>,
              \<lparr>remote = ''upstream'', branch = ''feature-1'', fullName = ''upstream/feature-1''\<rparr>]\<rparr>
     = filter (\<lambda>r. Some (branch r) \<notin> protectedBranches ''main'' (Some ''main'') (protect test_options))
     [\<lparr>remote = ''origin'', branch = ''feature-1'', fullName = ''origin/feature-1''\<rparr>,
      \<lparr>remote = ''origin'', branch = ''main'', fullName = ''origin/main''\<rparr>,
      \<lparr>remote = ''origin'', branch = ''topic/x'', fullName = ''origin/topic/x''\<rparr>,
      \<lparr>remote = ''upstream'', branch = ''feature-1'', fullName = ''upstream/feature-1''\<rparr>,
      \<lparr>remote = ''upstream'', branch = ''main'', fullName = ''upstream/main''\<rparr>]"
    using getBranchesToClean_remote_by_name [OF inc d c rs test_repo_plan] by (rule conjunct1)
  then have "filter (\<lambda>r. Some (branch r) \<notin> protectedBranches ''main'' (Some ''main'') (protect test_options))
     [\<lparr>remote = ''origin'', branch = ''feature-1'', fullName = ''origin/feature-1''\<rparr>,
      \<lparr>remote = ''origin'', branch = ''main'', fullName = ''origin/main''\<rparr>,
      \<lparr>remote = ''origin'', branch = ''topic/x'', fullName = ''origin/topic/x''\<rparr>,
      \<lparr>remote = ''upstream'', branch = ''feature-1'', fullName = ''upstream/feature-1''\<rparr>,
      \<lparr>remote = ''upstream'', branch = ''main'', fullName = ''upstream/main''\<rparr>]
     = [\<lparr>remote = ''origin'', branch = ''feature-1'', fullName = ''origin/feature-1''\<rparr>,
        \<lparr>remote = ''origin'', branch = ''topic/x'', fullName = ''origin/topic/x''\<rparr>,
        \<lparr>remote = ''upstream'', branch = ''feature-1'', fullName = ''upstream/feature-1''\<rparr>]"
    by (simp only: cleanup.simps)
  with inc d c rs show ?thesis by (intro conjI)
qed

subsection \<open>getBranchesToClean outside a repository\<close>

text \<open>
  C10, as stated, fails where the protect list holds the empty string: it is discarded, so
  the protected set is not \<open>{main} \<union> extraProtected\<close>.
\<close>

theorem getBranchesToClean_empty_protect_counterexample:
  "getDefaultBranch (cwd empty_protect_options) = Normal ''main''
   \<and> getCurrentBranch (cwd empty_protect_options) = Normal None
   \<and> getBranchesToClean empty_protect_options = Normal \<lparr>localToClean = [], remoteToClean = []\<rparr>
   \<and> protectedBranches ''main'' None (protect empty_protect_options)
       \<noteq> {Some ''main''} \<union> Some ` set (protect empty_protect_options)"
proof -
  have m: "Some [] \<notin> protectedBranches ''main'' None (protect empty_protect_options)"
    by (simp add: protectedBranches_set)
  have "Some [] \<in> {Some ''main''} \<union> Some ` set (protect empty_protect_options)"
    by (simp add: empty_protect_options_def)
  with m have ne: "protectedBranches ''main'' None (protect empty_protect_options)
       \<noteq> {Some ''main''} \<union> Some ` set (protect empty_protect_options)"
    by metis
  have cw: "cwd empty_protect_options = not_a_repo"
    by (simp add: empty_protect_options_def)
  have ls: "listLocalBranches not_a_repo = Normal []"
    by (simp add: listLocalBranches_def not_a_repo_def)
  have rs: "listRemoteBranches not_a_repo = Normal []"
    by (simp add: listRemoteBranches_def not_a_repo_def)
  have "getBranchesToClean empty_protect_options = Normal \<lparr>localToClean = [], remoteToClean = []\<rparr>"
    using getBranchesToClean_unfold [of empty_protect_options "''main''" None "[]" "[]"]
    by (simp add: cw not_a_repo_default not_a_repo_current ls rs)
  with ne show ?thesis
    by (simp add: cw not_a_repo_default not_a_repo_current)
qed

lemma all_fail_default:
  assumes "\<forall>cmd. \<exists>e. sh cmd = Throw e"
  shows "getDefaultBranch sh = Normal ''main''"
proof -
  obtain e where "sh ''git symbolic-ref refs/remotes/origin/HEAD 2>/dev/null'' = Throw e"
    using assms by blast
  moreover obtain e' where "sh ''git branch -a'' = Throw e'"
    using assms by blast
  ultimately show ?thesis by (rule getDefaultBranch_fallback)
qed

lemma all_fail_current:
  assumes "\<forall>cmd. \<exists>e. sh cmd = Throw e"
  shows "getCurrentBranch sh = Normal None"
proof -
  obtain e where "sh ''git branch --show-current'' = Throw e"
    using assms by blast
  then show ?thesis by (simp add: getCurrentBranch_def)
qed

lemma all_fail_local:
  assumes "\<forall>cmd. \<exists>e. sh cmd = Throw e"
  shows "listLocalBranches sh = Normal []"
proof -
  obtain e where \<open>sh ''git branch --format="%(refname:short)"'' = Throw e\<close>
    using assms by blast
  then show ?thesis by (simp add: listLocalBranches_def)
qed

lemma all_fail_remote:
  assumes "\<forall>cmd. \<exists>e. sh cmd = Throw e"
  shows "listRemoteBranches sh = Normal []"
proof -
  obtain e where \<open>sh ''git branch -r --format="%(refname:short)"'' = Throw e\<close>
    using assms by blast
  then show ?thesis by (simp add: listRemoteBranches_def)
qed

text \<open>
  C10, amended: where every query fails, \<open>getBranchesToClean\<close> does not raise and
  returns no local and no remote candidate; the default branch falls back to \<open>main\<close>,
  the current branch is \<open>null\<close>, and the protected set is \<open>main\<close> together with the
  non-empty entries of the protect list.
\<close>

theorem getBranchesToClean_not_a_repo:
  assumes fail: "\<forall>cmd. \<exists>e. cwd opts cmd = Throw e"
  shows "getBranchesToClean opts = Normal \<lparr>localToClean = [], remoteToClean = []\<rparr>
         \<and> getDefaultBranch (cwd opts) = Normal ''main''
         \<and> getCurrentBranch (cwd opts) = Normal None
         \<and> protectedBranches ''main'' None (protect opts)
             = {Some ''main''} \<union> Some ` (set (protect opts) - {[]})"
proof -
  note d = all_fail_default [OF fail] and c = all_fail_current [OF fail]
    and ls = all_fail_local [OF fail] and rs = all_fail_remote [OF fail]
  have 1: "getBranchesToClean opts = Normal \<lparr>localToClean = [], remoteToClean = []\<rparr>"
    using getBranchesToClean_unfold [OF d c ls rs] by simp
  have 2: "protectedBranches ''main'' None (protect opts)
             = {Some ''main''} \<union> Some ` (set (protect opts) - {[]})"
    by (auto simp: protectedBranches_set)
  from 1 d c 2 show ?thesis by (intro conjI)
qed

theorem getBranchesToClean_not_a_repo_witness:
  "(\<forall>cmd. \<exists>e. cwd empty_protect_options cmd = Throw e)
   \<and> getBranchesToClean empty_protect_options = Normal \<lparr>localToClean = [], remoteToClean = []\<rparr>
   \<and> protectedBranches ''main'' None (protect empty_protect_options) = {Some ''main''}"
proof -
  have fail: "\<forall>cmd. \<exists>e. cwd empty_protect_options cmd = Throw e"
    by (simp add: empty_protect_options_def not_a_repo_def)
  have "{Some ''main''} \<union> Some ` (set (protect empty_protect_options) - {[]}) = {Some ''main''}"
    by (simp add: empty_protect_options_def)
  then show ?thesis
    using fail getBranchesToClean_not_a_repo [OF fail] by simp
qed

subsection \<open>isBranchMerged\<close>

lemma isBranchMerged_query_fails:
  "getDefaultBranch sh = Normal d \<Longrightarrow> sh (merged_query d) = Throw e \<Longrightarrow>
   isBranchMerged b sh = Normal False"
  by (simp add: isBranchMerged_def)

text \<open>
  Where the listing prints the merged branches one per line, the result is membership
  among them, except that the empty string is always found: the listing ends with a
  newline, so \<open>split\<close> yields a last, empty entry.
\<close>

lemma isBranchMerged_lines:
  assumes d: "getDefaultBranch sh = Normal d"
    and out: "sh (merged_query d) = Normal (concat (map (\<lambda>n. n @ [CHR 0x0A]) names))"
    and names: "list_all spaceless_name names"
  shows "isBranchMerged b sh = Normal (b \<in> set names \<or> b = [])"
proof -
  from names have "\<forall>n \<in> set names. CHR 0x0A \<notin> set n"
    by (auto simp: list_all_iff spaceless_name_def is_space_def)
  then have "js_split CHR 0x0A (concat (map (\<lambda>n. n @ [CHR 0x0A]) names)) = names @ [[]]"
    by (rule js_split_lines)
  then show ?thesis
    using out by (auto simp: isBranchMerged_def d)
qed

text \<open>
  C4. The claim: \<open>isBranchMerged\<close> is true exactly for a branch whose tip is reachable
  from the tip of the default branch, by exact membership in the listing of the merged
  branches. In the repository of the test suite the listing succeeds and holds
  \<open>feature-1\<close> and \<open>main\<close>; the empty string names no branch, and \<open>isBranchMerged\<close>
  of it is true. \<open>listLocalBranches\<close> drops the empty entries of its listing;
  \<open>isBranchMerged\<close> does not.
\<close>

theorem isBranchMerged_empty_name:
  "listLocalBranches test_repo = Normal [''feature-1'', ''feature-2'', ''hotfix-1'', ''main'']
   \<and> test_repo (merged_query ''main'') = Normal ''feature-1\<newline>main\<newline>''
   \<and> isBranchMerged [] test_repo = Normal True"
proof -
  have q: "test_repo (merged_query ''main'') = Normal ''feature-1\<newline>main\<newline>''"
    by (simp add: test_repo_def merged_query_def)
  have "isBranchMerged [] test_repo = Normal True"
    by (simp add: isBranchMerged_def test_repo_default q)
  with test_repo_local q show ?thesis by (intro conjI)
qed

subsection \<open>listRemoteBranches\<close>

text \<open>
  C7. The claim: every remote-tracking branch is returned except the symbolic HEAD
  pointers. The code drops every entry whose name contains \<open>HEAD\<close>: of \<open>origin/HEAD\<close>,
  \<open>origin/fix-HEAD-bug\<close> and \<open>origin/main\<close> only the last is returned.
\<close>

theorem listRemoteBranches_drops_HEAD_substring:
  "listRemoteBranches head_named_repo
   = Normal [\<lparr>remote = ''origin'', branch = ''main'', fullName = ''origin/main''\<rparr>]"
  by code_simp

subsection \<open>No operation raises\<close>

lemma deleteLocalBranch_outcome:
  "(\<exists>w'. deleteLocalBranch ex b w force = (Normal \<lparr>success = True, error = None\<rparr>, w'))
   \<or> (\<exists>message w'. deleteLocalBranch ex b w force
          = (Normal \<lparr>success = False, error = Some message\<rparr>, w'))"
  by (auto simp: deleteLocalBranch_def Let_def split: prod.splits completion.splits)

lemma deleteRemoteBranch_outcome:
  "(\<exists>w'. deleteRemoteBranch ex rem b w = (Normal \<lparr>success = True, error = None\<rparr>, w'))
   \<or> (\<exists>message w'. deleteRemoteBranch ex rem b w
          = (Normal \<lparr>success = False, error = Some message\<rparr>, w'))"
  by (auto simp: deleteRemoteBranch_def split: prod.splits completion.splits)

lemma all_fail_isGitRepo:
  assumes "\<forall>cmd. \<exists>e. sh cmd = Throw e"
  shows "isGitRepo sh = Normal False"
proof -
  obtain e where "sh ''git rev-parse --git-dir'' = Throw e"
    using assms by blast
  then show ?thesis by (simp add: isGitRepo_def)
qed

lemma all_fail_merged:
  assumes "\<forall>cmd. \<exists>e. sh cmd = Throw e"
  shows "isBranchMerged b sh = Normal False"
proof -
  obtain e where "sh (merged_query ''main'') = Throw e"
    using assms by blast
  then show ?thesis by (simp add: isBranchMerged_def all_fail_default [OF assms])
qed

text \<open>
  With the directory given, no function raises; where every query fails the inspection
  functions return \<open>false\<close>, the default \<open>main\<close>, \<open>null\<close>, the empty list twice and
  \<open>false\<close>, and each deletion returns \<open>{success: true}\<close> or \<open>{success: false, error}\<close>.
\<close>

lemma given_cwd_never_raises:
  "(\<exists>v. isGitRepo sh = Normal v)
   \<and> (\<exists>v. getDefaultBranch sh = Normal v)
   \<and> (\<exists>v. getCurrentBranch sh = Normal v)
   \<and> (\<exists>v. listLocalBranches sh = Normal v)
   \<and> (\<exists>v. listRemoteBranches sh = Normal v)
   \<and> (\<exists>v. isBranchMerged b sh = Normal v)
   \<and> ((\<forall>cmd. \<exists>e. sh cmd = Throw e)
        \<longrightarrow> isGitRepo sh = Normal False
          \<and> getDefaultBranch sh = Normal ''main''
          \<and> getCurrentBranch sh = Normal None
          \<and> listLocalBranches sh = Normal []
          \<and> listRemoteBranches sh = Normal []
          \<and> isBranchMerged b sh = Normal False)
   \<and> ((\<exists>w'. deleteLocalBranch ex b w force = (Normal \<lparr>success = True, error = None\<rparr>, w'))
        \<or> (\<exists>message w'. deleteLocalBranch ex b w force
              = (Normal \<lparr>success = False, error = Some message\<rparr>, w')))
   \<and> ((\<exists>w'. deleteRemoteBranch ex rem b w = (Normal \<lparr>success = True, error = None\<rparr>, w'))
        \<or> (\<exists>message w'. deleteRemoteBranch ex rem b w
              = (Normal \<lparr>success = False, error = Some message\<rparr>, w')))"
proof -
  have 1: "\<exists>v. getDefaultBranch sh = Normal v"
    using getDefaultBranch_nonempty [of sh] by blast
  have 2: "(\<forall>cmd. \<exists>e. sh cmd = Throw e)
        \<longrightarrow> isGitRepo sh = Normal False
          \<and> getDefaultBranch sh = Normal ''main''
          \<and> getCurrentBranch sh = Normal None
          \<and> listLocalBranches sh = Normal []
          \<and> listRemoteBranches sh = Normal []
          \<and> isBranchMerged b sh = Normal False"
    by (intro impI conjI all_fail_isGitRepo all_fail_default all_fail_current all_fail_local
        all_fail_remote all_fail_merged)
  from isGitRepo_total 1 getCurrentBranch_total listLocalBranches_total listRemoteBranches_total
    isBranchMerged_total 2 deleteLocalBranch_outcome deleteRemoteBranch_outcome
  show ?thesis by (intro conjI)
qed

text \<open>Each fallback value follows from the failure of the function's own query.\<close>

lemma isGitRepo_result:
  "isGitRepo sh = Normal (\<exists>out. sh ''git rev-parse --git-dir'' = Normal out)"
  by (auto simp: isGitRepo_def split: completion.splits)

lemma listLocalBranches_query_fails:
  \<open>sh ''git branch --format="%(refname:short)"'' = Throw e \<Longrightarrow> listLocalBranches sh = Normal []\<close>
  by (simp add: listLocalBranches_def)

lemma listRemoteBranches_query_fails:
  \<open>sh ''git branch -r --format="%(refname:short)"'' = Throw e \<Longrightarrow> listRemoteBranches sh = Normal []\<close>
  by (simp add: listRemoteBranches_def)

text \<open>A deletion reports success exactly when its command returns.\<close>

lemma deleteLocalBranch_result:
  \<open>deleteLocalBranch ex b w force =
     (case ex (''git branch '' @ (if force then ''-D'' else ''-d'') @ '' "'' @ b @ ''"'') w of
        (Normal out, w') \<Rightarrow> (Normal \<lparr>success = True, error = None\<rparr>, w')
      | (Throw message, w') \<Rightarrow> (Normal \<lparr>success = False, error = Some message\<rparr>, w'))\<close>
  by (simp add: deleteLocalBranch_def Let_def)

lemma deleteLocalBranch_success_iff:
  \<open>(\<exists>w'. deleteLocalBranch ex b w force = (Normal \<lparr>success = True, error = None\<rparr>, w'))
   \<longleftrightarrow> (\<exists>out. fst (ex (''git branch '' @ (if force then ''-D'' else ''-d'') @ '' "'' @ b @ ''"'') w)
               = Normal out)\<close>
  unfolding deleteLocalBranch_result
  by (auto split: prod.splits completion.splits)

lemma deleteRemoteBranch_success_iff:
  \<open>(\<exists>w'. deleteRemoteBranch ex rem b w = (Normal \<lparr>success = True, error = None\<rparr>, w'))
   \<longleftrightarrow> (\<exists>out. fst (ex (''git push '' @ rem @ '' --delete "'' @ b @ ''"'') w) = Normal out)\<close>
  unfolding deleteRemoteBranch_def
  by (auto split: prod.splits completion.splits)

lemma default_cwd_given: "default_cwd process_cwd (Some dir) body = body dir"
  by (simp add: default_cwd_def)

lemma default_cwd_found: "default_cwd (Normal dir) None body = body dir"
  by (simp add: default_cwd_def)

text \<open>
  C8. The claim: no operation raises, for every input. With the directory omitted in a
  process whose directory has been removed, \<open>process.cwd()\<close> throws while the default
  argument is evaluated, outside the \<open>try\<close> block, and each of the six inspection
  functions and the two deletion functions raises that error.
\<close>

theorem default_cwd_raises:
  "default_cwd cwd_gone None isGitRepo = Throw ''ENOENT: no such file or directory, uv_cwd''
   \<and> default_cwd cwd_gone None getDefaultBranch = Throw ''ENOENT: no such file or directory, uv_cwd''
   \<and> default_cwd cwd_gone None getCurrentBranch = Throw ''ENOENT: no such file or directory, uv_cwd''
   \<and> default_cwd cwd_gone None listLocalBranches = Throw ''ENOENT: no such file or directory, uv_cwd''
   \<and> default_cwd cwd_gone None listRemoteBranches = Throw ''ENOENT: no such file or directory, uv_cwd''
   \<and> default_cwd cwd_gone None (isBranchMerged ''main'') = Throw ''ENOENT: no such file or directory, uv_cwd''
   \<and> default_cwd cwd_gone None (\<lambda>w. fst (deleteLocalBranch git_sh ''feature-delete'' w False))
       = Throw ''ENOENT: no such file or directory, uv_cwd''
   \<and> default_cwd cwd_gone None (\<lambda>w. fst (deleteRemoteBranch git_sh ''origin'' ''feature-delete'' w))
       = Throw ''ENOENT: no such file or directory, uv_cwd''"
  by (simp add: default_cwd_def cwd_gone_def)

subsection \<open>deleteLocalBranch\<close>

lemma trim_spaceless_name: "spaceless_name n \<Longrightarrow> trim n = n"
  by (rule trim_id) (auto simp: spaceless_name_def list_all_iff)

lemma listLocalBranches_git_sh:
  assumes "list_all spaceless_name (heads r)"
  shows "listLocalBranches (observe git_sh r) = Normal (heads r)"
proof -
  from assms have "\<forall>n \<in> set (heads r). CHR 0x0A \<notin> set n"
    by (auto simp: list_all_iff spaceless_name_def is_space_def)
  then have sp: "js_split CHR 0x0A (concat (map (\<lambda>n. n @ [CHR 0x0A]) (heads r))) = heads r @ [[]]"
    by (rule js_split_lines)
  have tr: "map trim (heads r) = heads r"
    using assms by (simp add: list_all_iff map_idI trim_spaceless_name)
  have ne: "filter (\<lambda>b. b \<noteq> []) (heads r) = heads r"
    using assms by (auto simp: list_all_iff spaceless_name_def intro: filter_True)
  show ?thesis
    by (simp add: listLocalBranches_def observe_def git_sh_def sp tr ne trim_def)
qed

lemma sh_read_quoted: "sh_literal b \<Longrightarrow> sh_read True (b @ [CHR 0x22]) = Word b"
  by (induction b) (auto simp: sh_literal_def)

lemma deleteLocalBranch_git_sh:
  assumes "sh_literal b"
  shows "deleteLocalBranch git_sh b r force =
         (case git_branch_delete force b r of
            (Normal _, r') \<Rightarrow> (Normal \<lparr>success = True, error = None\<rparr>, r')
          | (Throw message, r') \<Rightarrow> (Normal \<lparr>success = False, error = Some message\<rparr>, r'))"
  using assms
  by (cases force)
    (simp_all add: deleteLocalBranch_def git_sh_def run_branch_delete_def sh_read_quoted)

text \<open>
  For an unmerged branch whose name the shell passes on unchanged, safe deletion fails and
  leaves the branch listed, and forced deletion succeeds and removes it.
\<close>

lemma deleteLocalBranch_unmerged_literal:
  assumes u: "unmerged r b" and lit: "sh_literal b" and names: "list_all spaceless_name (heads r)"
  shows "\<exists>message. deleteLocalBranch git_sh b r False
           = (Normal \<lparr>success = False, error = Some message\<rparr>, r)"
    and "\<exists>ls. listLocalBranches (observe git_sh r) = Normal ls \<and> b \<in> set ls"
    and "\<exists>r' ls. deleteLocalBranch git_sh b r True = (Normal \<lparr>success = True, error = None\<rparr>, r')
           \<and> listLocalBranches (observe git_sh r') = Normal ls \<and> b \<notin> set ls"
proof -
  from u have b: "b \<in> set (heads r)" "b \<noteq> checked_out r" "b \<notin> set (merged r)"
    by (simp_all add: unmerged_def)
  show "\<exists>message. deleteLocalBranch git_sh b r False
           = (Normal \<lparr>success = False, error = Some message\<rparr>, r)"
    using b by (simp add: deleteLocalBranch_git_sh [OF lit] git_branch_delete_def)
  show "\<exists>ls. listLocalBranches (observe git_sh r) = Normal ls \<and> b \<in> set ls"
    using b listLocalBranches_git_sh [OF names] by simp
  let ?r' = "r\<lparr>heads := removeAll b (heads r), merged := removeAll b (merged r)\<rparr>"
  have del: "deleteLocalBranch git_sh b r True = (Normal \<lparr>success = True, error = None\<rparr>, ?r')"
    using b by (simp add: deleteLocalBranch_git_sh [OF lit] git_branch_delete_def)
  have "list_all spaceless_name (heads ?r')"
    using names by (simp add: list_all_iff)
  then have "listLocalBranches (observe git_sh ?r') = Normal (removeAll b (heads r))"
    using listLocalBranches_git_sh [of ?r'] by simp
  with del show "\<exists>r' ls. deleteLocalBranch git_sh b r True
           = (Normal \<lparr>success = True, error = None\<rparr>, r')
           \<and> listLocalBranches (observe git_sh r') = Normal ls \<and> b \<notin> set ls"
    by auto
qed

text \<open>
  C5. The claim: a forced deletion of an unmerged branch succeeds and removes the branch.
  The branch name is put between double quotes without escaping, so for the unmerged
  branch \<open>a"b\<close> the command line is \<open>git branch -D "a"b"\<close>, which the shell rejects:
  the outcome is a failure and the branch is still listed.
\<close>

theorem deleteLocalBranch_quoted_name:
  \<open>unmerged quoted_repo ''a"b''
   \<and> deleteLocalBranch git_sh ''a"b'' quoted_repo True
       = (Normal \<lparr>success = False, error = Some ''sh: Syntax error: Unterminated quoted string''\<rparr>,
          quoted_repo)
   \<and> listLocalBranches (observe git_sh quoted_repo) = Normal [''a"b'', ''feature-delete'', ''main'']\<close>
  by code_simp

end
